theory Spec2Isabelle
  imports Complex_Main
begin

section \<open>The interactive analysis demo of SNT, as a script over an opaque host\<close>

text \<open>
  The script \<^verbatim>\<open>Analysis_Demo_(Interactive).py\<close> is a single function \<^verbatim>\<open>run()\<close> that
  calls the services injected by the host (\<^verbatim>\<open>snt\<close>, \<^verbatim>\<open>ui\<close>) and the objects these
  calls return. The host is not part of the script: it is a parameter of the model, a
  transition function on a host state of any type. Every call made by the script and
  every line it prints is recorded, in order, in the trace of the run.
\<close>

subsection \<open>Values\<close>

text \<open>A Java \<^verbatim>\<open>double\<close> as Jython sees it: a finite value, NaN, or an infinity
  (\<open>Inf True\<close> is the positive one).\<close>

datatype double = Fin rat | NaN | Inf bool

text \<open>What a host call hands back to the script: Java \<^verbatim>\<open>null\<close> (or \<^verbatim>\<open>void\<close>) is
  \<^verbatim>\<open>None\<close>, an object is a reference, a \<^verbatim>\<open>double\<close> is a float.\<close>

datatype pyval = PyNone | PyObj nat | PyFloat double

text \<open>The two static fields of host classes that the script reads,
  \<^verbatim>\<open>SNTUI.TRACING_PAUSED\<close> and \<^verbatim>\<open>TreeStatistics.INTER_NODE_DISTANCE\<close>. The script
  passes them on and never inspects their values.\<close>

datatype static = TRACING_PAUSED | INTER_NODE_DISTANCE

text \<open>Arguments of a call: a value held in a local variable, a literal, or a static
  field.\<close>

datatype arg = AVal pyval | ABool bool | AInt int | AStr string | AStatic static

text \<open>The receiver of a call: one of the injected services \<^verbatim>\<open>snt\<close> and \<^verbatim>\<open>ui\<close>, an
  object reference, or the class \<^verbatim>\<open>TreeStatistics\<close> (for the constructor call).\<close>

datatype target = snt | ui | Ref nat | TreeStatistics

text \<open>The host methods the script calls, by name; \<open>new\<close> is a constructor call and
  \<open>show'\<close> is \<^verbatim>\<open>show\<close>.\<close>

datatype meth = getUI | initialize | demoTree | showDialog | changeState | loadTree
  | getAnalyzer | getStatistics | summarize | updateAndDisplayTable | getSummaryStats
  | getHistogram | show' | getMin | getTree | downSample | setLabel | new | setColor
  | getRecViewer | getPlugin | updateAllViewers

datatype call = Call target meth "arg list"

datatype reply = Returns pyval | Throws

datatype event = Called call reply | Printed string

datatype fault = AttributeError | TypeError | ValueError | OverflowError | HostException

datatype 'a res = Val 'a | Ret | Exc fault

datatype outcome = Finished | Returned_early | Raised fault

text \<open>Python truth of a value: \<^verbatim>\<open>None\<close> is false, a host object (neither \<^verbatim>\<open>SNTUI\<close> nor
  \<^verbatim>\<open>Tree\<close> defines a length) is true, a float is false when it is zero.\<close>

fun truthy :: "pyval \<Rightarrow> bool" where
  "truthy PyNone = False"
| "truthy (PyObj r) = True"
| "truthy (PyFloat d) = (d \<noteq> Fin 0)"

subsection \<open>The \<^verbatim>\<open>%d\<close> conversion\<close>

definition digit :: "nat \<Rightarrow> char" where
  "digit n = ''0123456789'' ! n"

fun str_of_nat :: "nat \<Rightarrow> string" where
  "str_of_nat n = (if n < 10 then [digit n] else str_of_nat (n div 10) @ [digit (n mod 10)])"

declare str_of_nat.simps [simp del]

definition str_of_int :: "int \<Rightarrow> string" where
  "str_of_int i = (if i < 0 then CHR ''-'' # str_of_nat (nat (- i)) else str_of_nat (nat i))"

text \<open>Python's \<^verbatim>\<open>int(x)\<close> on a float: truncation toward zero.\<close>

definition py_int :: "rat \<Rightarrow> int" where
  "py_int q = (if 0 \<le> q then \<lfloor>q\<rfloor> else \<lceil>q\<rceil>)"

text \<open>\<^verbatim>\<open>"%d" % v\<close>: a float is converted with \<^verbatim>\<open>int\<close>, which raises on NaN and on the
  infinities; a value that is not a number is a \<^verbatim>\<open>TypeError\<close>.\<close>

fun percent_d :: "pyval \<Rightarrow> fault + string" where
  "percent_d (PyFloat (Fin q)) = Inr (str_of_int (py_int q))"
| "percent_d (PyFloat NaN) = Inl ValueError"
| "percent_d (PyFloat (Inf b)) = Inl OverflowError"
| "percent_d PyNone = Inl TypeError"
| "percent_d (PyObj r) = Inl TypeError"

subsection \<open>Scripts: host state in, result, host state and emitted events out\<close>

type_synonym ('h, 'a) script = "'h \<Rightarrow> 'a res \<times> 'h \<times> event list"

type_synonym 'h host = "'h \<Rightarrow> call \<Rightarrow> reply \<times> 'h"

definition unit :: "'a \<Rightarrow> ('h, 'a) script" where
  "unit x = (\<lambda>h. (Val x, h, []))"

definition return_early :: "('h, 'a) script" where
  "return_early = (\<lambda>h. (Ret, h, []))"

definition bnd :: "('h, 'a) script \<Rightarrow> ('a \<Rightarrow> ('h, 'b) script) \<Rightarrow> ('h, 'b) script" where
  "bnd m f = (\<lambda>h. case m h of
       (Val x, h', es) \<Rightarrow> (case f x h' of (r, h'', es') \<Rightarrow> (r, h'', es @ es'))
     | (Ret, h', es) \<Rightarrow> (Ret, h', es)
     | (Exc e, h', es) \<Rightarrow> (Exc e, h', es))"

text \<open>A call that reaches the host: the host answers and moves to its next state; an
  exception thrown by the host propagates.\<close>

definition invoke :: "'h host \<Rightarrow> call \<Rightarrow> ('h, pyval) script" where
  "invoke host c = (\<lambda>h. case host h c of
       (Returns v, h') \<Rightarrow> (Val v, h', [Called c (Returns v)])
     | (Throws, h') \<Rightarrow> (Exc HostException, h', [Called c Throws]))"

text \<open>\<^verbatim>\<open>recv.name(args)\<close>: the attribute lookup fails on anything but an object, before
  the host is reached.\<close>

fun invoke_on :: "'h host \<Rightarrow> pyval \<Rightarrow> meth \<Rightarrow> arg list \<Rightarrow> ('h, pyval) script" where
  "invoke_on host (PyObj r) name args = invoke host (Call (Ref r) name args)"
| "invoke_on host PyNone name args = (\<lambda>h. (Exc AttributeError, h, []))"
| "invoke_on host (PyFloat d) name args = (\<lambda>h. (Exc AttributeError, h, []))"

text \<open>\<^verbatim>\<open>print("... %d" % v)\<close>, the only shape of \<^verbatim>\<open>print\<close> in the script; \<open>prefix\<close>
  is the text of the format string before \<^verbatim>\<open>%d\<close>.\<close>

definition print_d :: "string \<Rightarrow> pyval \<Rightarrow> ('h, pyval) script" where
  "print_d prefix v = (\<lambda>h. case percent_d v of
       Inl e \<Rightarrow> (Exc e, h, [])
     | Inr s \<Rightarrow> (Val PyNone, h, [Printed (prefix @ s)]))"

subsection \<open>The script\<close>

text \<open>\<^verbatim>\<open>run()\<close>, statement by statement (source lines 37 to 97).\<close>

definition run :: "'h host \<Rightarrow> ('h, pyval) script" where
  "run host = (
     bnd (invoke host (Call snt getUI [])) (\<lambda>ui0.
     bnd (if \<not> truthy ui0 then invoke host (Call snt initialize [ABool True])
          else unit PyNone) (\<lambda>_.
     bnd (invoke host (Call snt demoTree [])) (\<lambda>demo_tree.
     if \<not> truthy demo_tree then
       bnd (invoke host (Call ui showDialog
              [AStr ''Somehow could not load bundled file.'', AStr ''Error''])) (\<lambda>_.
       return_early)
     else
     bnd (invoke host (Call snt getUI [])) (\<lambda>ui1.
     bnd (invoke_on host ui1 changeState [AStatic TRACING_PAUSED]) (\<lambda>_.
     bnd (invoke host (Call snt loadTree [AVal demo_tree])) (\<lambda>_.
     bnd (invoke host (Call snt getAnalyzer [ABool False])) (\<lambda>analyzer.
     bnd (invoke host (Call snt getStatistics [ABool False])) (\<lambda>stats.
     bnd (invoke_on host analyzer summarize [AStr ''TreeV Demo'', ABool True]) (\<lambda>_.
     bnd (invoke_on host analyzer updateAndDisplayTable []) (\<lambda>_.
     let metric = AStatic INTER_NODE_DISTANCE in
     bnd (invoke_on host stats getSummaryStats [metric]) (\<lambda>summary_stats.
     bnd (invoke_on host stats getHistogram [metric]) (\<lambda>histogram.
     bnd (invoke_on host histogram show' []) (\<lambda>_.
     bnd (invoke_on host summary_stats getMin []) (\<lambda>smallest.
     bnd (print_d ''Smallest inter-node distance: '' smallest) (\<lambda>_.
     bnd (invoke host (Call snt getTree [ABool False])) (\<lambda>tree.
     bnd (invoke_on host tree downSample [AInt 10]) (\<lambda>_.
     bnd (invoke_on host tree setLabel [AStr ''10um downsampled'']) (\<lambda>_.
     bnd (invoke host (Call TreeStatistics new [AVal tree])) (\<lambda>stats.
     bnd (invoke_on host stats getSummaryStats [metric]) (\<lambda>summary_stats.
     bnd (invoke_on host stats getHistogram [metric]) (\<lambda>histogram.
     bnd (invoke_on host histogram show' []) (\<lambda>_.
     bnd (invoke_on host analyzer summarize [AStr ''TreeV Demo (Downsampled)'', ABool True]) (\<lambda>_.
     bnd (invoke_on host analyzer updateAndDisplayTable []) (\<lambda>_.
     bnd (invoke_on host summary_stats getMin []) (\<lambda>smallest.
     bnd (print_d ''After downsampling: '' smallest) (\<lambda>_.
     bnd (invoke_on host tree setColor [AStr ''cyan'']) (\<lambda>_.
     bnd (invoke host (Call snt demoTree [])) (\<lambda>tree.
     bnd (invoke_on host tree setColor [AStr ''yellow'']) (\<lambda>_.
     bnd (invoke host (Call snt loadTree [AVal tree])) (\<lambda>_.
     bnd (invoke host (Call snt getRecViewer [])) (\<lambda>viewer.
     bnd (invoke_on host viewer show' []) (\<lambda>_.
     bnd (invoke host (Call snt getPlugin [])) (\<lambda>plugin.
     invoke_on host plugin updateAllViewers []
     ))))))))))))))))))))))))))))))))))"

subsection \<open>Running the script\<close>

text \<open>What an observer sees of one execution started in host state \<open>h\<close>: how the
  script ended, and the trace. Falling off the end of \<^verbatim>\<open>run()\<close> is \<open>Finished\<close>, the
  \<^verbatim>\<open>return\<close> statement of line 45 is \<open>Returned_early\<close>, an unhandled exception is
  \<open>Raised\<close>.\<close>

fun outcome_of :: "'a res \<Rightarrow> outcome" where
  "outcome_of (Val v) = Finished"
| "outcome_of Ret = Returned_early"
| "outcome_of (Exc e) = Raised e"

definition exec :: "'h host \<Rightarrow> 'h \<Rightarrow> outcome \<times> event list" where
  "exec host h = (case run host h of (r, h', es) \<Rightarrow> (outcome_of r, es))"

subsection \<open>Reading traces\<close>

fun calls_method :: "meth \<Rightarrow> event \<Rightarrow> bool" where
  "calls_method name (Called (Call t n as) r) = (n = name)"
| "calls_method name (Printed s) = False"

fun is_printed :: "event \<Rightarrow> bool" where
  "is_printed (Printed s) = True"
| "is_printed (Called c r) = False"

text \<open>The part of a trace that concerns the printed minimum: the \<^verbatim>\<open>getMin\<close> calls and
  the printed lines.\<close>

fun reports :: "event list \<Rightarrow> event list" where
  "reports [] = []"
| "reports (Printed s # es) = Printed s # reports es"
| "reports (Called (Call t n as) r # es) =
     (if n = getMin then Called (Call t n as) r # reports es else reports es)"

text \<open>The methods called, in order (printed lines are skipped).\<close>

fun meths :: "event list \<Rightarrow> meth list" where
  "meths [] = []"
| "meths (Called (Call t n as) r # es) = n # meths es"
| "meths (Printed s # es) = meths es"

text \<open>The replies the host gave to the call \<open>c\<close>, in order.\<close>

fun replies_to :: "call \<Rightarrow> event list \<Rightarrow> reply list" where
  "replies_to c [] = []"
| "replies_to c (Called c' r # es) = (if c' = c then r # replies_to c es else replies_to c es)"
| "replies_to c (Printed s # es) = replies_to c es"

text \<open>\<open>post Q m h\<close>: the result and the events of the script \<open>m\<close> started in host
  state \<open>h\<close> satisfy \<open>Q\<close>.\<close>

definition post :: "('a res \<Rightarrow> event list \<Rightarrow> bool) \<Rightarrow> ('h, 'a) script \<Rightarrow> 'h \<Rightarrow> bool" where
  "post Q m h = (case m h of (r, h', es) \<Rightarrow> Q r es)"

subsection \<open>Concrete hosts\<close>

text \<open>A host that plays back a list of replies: its state is the list of replies still
  to give; once the list is exhausted it throws.\<close>

definition scripted :: "reply list host" where
  "scripted rs c = (case rs of [] \<Rightarrow> (Throws, []) | r # rs' \<Rightarrow> (r, rs'))"

text \<open>A session in which the UI is already up and every call succeeds. The smallest
  inter-node distance is 1/2 before downsampling and 21/2 after it.\<close>

definition demo_replies :: "reply list" where
  "demo_replies =
    [Returns (PyObj 1), Returns (PyObj 2), Returns (PyObj 1), Returns PyNone, Returns PyNone,
     Returns (PyObj 3), Returns (PyObj 4), Returns PyNone, Returns PyNone,
     Returns (PyObj 5), Returns (PyObj 6), Returns PyNone, Returns (PyFloat (Fin (1 / 2))),
     Returns (PyObj 7), Returns PyNone, Returns PyNone,
     Returns (PyObj 8), Returns (PyObj 9), Returns (PyObj 10), Returns PyNone,
     Returns PyNone, Returns PyNone, Returns (PyFloat (Fin (21 / 2))),
     Returns PyNone, Returns (PyObj 11), Returns PyNone, Returns PyNone,
     Returns (PyObj 12), Returns PyNone, Returns (PyObj 13), Returns PyNone]"

definition demo_trace :: "event list" where
  "demo_trace =
    [Called (Call snt getUI []) (Returns (PyObj 1)),
     Called (Call snt demoTree []) (Returns (PyObj 2)),
     Called (Call snt getUI []) (Returns (PyObj 1)),
     Called (Call (Ref 1) changeState [AStatic TRACING_PAUSED]) (Returns PyNone),
     Called (Call snt loadTree [AVal (PyObj 2)]) (Returns PyNone),
     Called (Call snt getAnalyzer [ABool False]) (Returns (PyObj 3)),
     Called (Call snt getStatistics [ABool False]) (Returns (PyObj 4)),
     Called (Call (Ref 3) summarize [AStr ''TreeV Demo'', ABool True]) (Returns PyNone),
     Called (Call (Ref 3) updateAndDisplayTable []) (Returns PyNone),
     Called (Call (Ref 4) getSummaryStats [AStatic INTER_NODE_DISTANCE]) (Returns (PyObj 5)),
     Called (Call (Ref 4) getHistogram [AStatic INTER_NODE_DISTANCE]) (Returns (PyObj 6)),
     Called (Call (Ref 6) show' []) (Returns PyNone),
     Called (Call (Ref 5) getMin []) (Returns (PyFloat (Fin (1 / 2)))),
     Printed ''Smallest inter-node distance: 0'',
     Called (Call snt getTree [ABool False]) (Returns (PyObj 7)),
     Called (Call (Ref 7) downSample [AInt 10]) (Returns PyNone),
     Called (Call (Ref 7) setLabel [AStr ''10um downsampled'']) (Returns PyNone),
     Called (Call TreeStatistics new [AVal (PyObj 7)]) (Returns (PyObj 8)),
     Called (Call (Ref 8) getSummaryStats [AStatic INTER_NODE_DISTANCE]) (Returns (PyObj 9)),
     Called (Call (Ref 8) getHistogram [AStatic INTER_NODE_DISTANCE]) (Returns (PyObj 10)),
     Called (Call (Ref 10) show' []) (Returns PyNone),
     Called (Call (Ref 3) summarize [AStr ''TreeV Demo (Downsampled)'', ABool True])
       (Returns PyNone),
     Called (Call (Ref 3) updateAndDisplayTable []) (Returns PyNone),
     Called (Call (Ref 9) getMin []) (Returns (PyFloat (Fin (21 / 2)))),
     Printed ''After downsampling: 10'',
     Called (Call (Ref 7) setColor [AStr ''cyan'']) (Returns PyNone),
     Called (Call snt demoTree []) (Returns (PyObj 11)),
     Called (Call (Ref 11) setColor [AStr ''yellow'']) (Returns PyNone),
     Called (Call snt loadTree [AVal (PyObj 11)]) (Returns PyNone),
     Called (Call snt getRecViewer []) (Returns (PyObj 12)),
     Called (Call (Ref 12) show' []) (Returns PyNone),
     Called (Call snt getPlugin []) (Returns (PyObj 13)),
     Called (Call (Ref 13) updateAllViewers []) (Returns PyNone)]"

text \<open>The same session started with the UI down: \<^verbatim>\<open>getUI()\<close> answers \<^verbatim>\<open>None\<close> first
  and \<^verbatim>\<open>initialize\<close> is answered before the rest.\<close>

definition ui_down_replies :: "reply list" where
  "ui_down_replies = Returns PyNone # Returns PyNone # tl demo_replies"

definition ui_down_trace :: "event list" where
  "ui_down_trace =
     Called (Call snt getUI []) (Returns PyNone) #
     Called (Call snt initialize [ABool True]) (Returns PyNone) # tl demo_trace"

text \<open>A session in which the bundled file cannot be loaded.\<close>

definition load_fail_replies :: "reply list" where
  "load_fail_replies = [Returns (PyObj 1), Returns PyNone, Returns PyNone]"

definition load_fail_trace :: "event list" where
  "load_fail_trace =
    [Called (Call snt getUI []) (Returns (PyObj 1)),
     Called (Call snt demoTree []) (Returns PyNone),
     Called (Call ui showDialog
       [AStr ''Somehow could not load bundled file.'', AStr ''Error'']) (Returns PyNone)]"

text \<open>A session in which the first load succeeds and the second one, of line 93, gives
  \<^verbatim>\<open>None\<close>.\<close>

definition reload_fail_replies :: "reply list" where
  "reload_fail_replies = take 24 demo_replies @ [Returns PyNone]"

definition reload_fail_trace :: "event list" where
  "reload_fail_trace = take 26 demo_trace @ [Called (Call snt demoTree []) (Returns PyNone)]"

section \<open>Rules for reasoning about every run\<close>

lemma post_exec:
  assumes "post Q (run host) h" and "exec host h = (out, tr)"
  shows "\<exists>r. out = outcome_of r \<and> Q r tr"
  using assms by (auto simp: post_def exec_def split: prod.splits)

lemma post_bnd_invoke:
  assumes "Q (Exc HostException) [Called c Throws]"
    and "\<And>v h1. post (\<lambda>r es. Q r (Called c (Returns v) # es)) (f v) h1"
  shows "post Q (bnd (invoke host c) f) h"
  using assms(1) assms(2)[of "case host h c of (Returns v, h') \<Rightarrow> v" "snd (host h c)"]
  by (auto simp: post_def bnd_def invoke_def split: prod.splits reply.splits)

lemma post_invoke:
  assumes "Q (Exc HostException) [Called c Throws]"
    and "\<And>v. Q (Val v) [Called c (Returns v)]"
  shows "post Q (invoke host c) h"
  using assms by (auto simp: post_def invoke_def split: prod.splits reply.splits)

lemma post_bnd_invoke_on:
  assumes "(\<forall>ref. recv \<noteq> PyObj ref) \<Longrightarrow> Q (Exc AttributeError) []"
    and "\<And>ref. recv = PyObj ref \<Longrightarrow>
           Q (Exc HostException) [Called (Call (Ref ref) name args) Throws]"
    and "\<And>ref v h1. recv = PyObj ref \<Longrightarrow>
           post (\<lambda>r es. Q r (Called (Call (Ref ref) name args) (Returns v) # es)) (f v) h1"
  shows "post Q (bnd (invoke_on host recv name args) f) h"
proof (cases recv)
  case (PyObj ref)
  show ?thesis unfolding PyObj invoke_on.simps
    by (rule post_bnd_invoke) (rule assms, rule PyObj)+
qed (use assms(1) in \<open>auto simp: post_def bnd_def\<close>)

lemma post_invoke_on:
  assumes "(\<forall>ref. recv \<noteq> PyObj ref) \<Longrightarrow> Q (Exc AttributeError) []"
    and "\<And>ref. recv = PyObj ref \<Longrightarrow>
           Q (Exc HostException) [Called (Call (Ref ref) name args) Throws]"
    and "\<And>ref v. recv = PyObj ref \<Longrightarrow>
           Q (Val v) [Called (Call (Ref ref) name args) (Returns v)]"
  shows "post Q (invoke_on host recv name args) h"
proof (cases recv)
  case (PyObj ref)
  show ?thesis unfolding PyObj invoke_on.simps
    by (rule post_invoke) (rule assms, rule PyObj)+
qed (use assms(1) in \<open>auto simp: post_def\<close>)

lemma post_bnd_print_d:
  assumes "\<And>e. (\<forall>q. v \<noteq> PyFloat (Fin q)) \<Longrightarrow> Q (Exc e) []"
    and "\<And>q. v = PyFloat (Fin q) \<Longrightarrow>
           post (\<lambda>r es. Q r (Printed (prefix @ str_of_int (py_int q)) # es)) (f PyNone) h"
  shows "post Q (bnd (print_d prefix v) f) h"
  using assms
  by (cases v rule: percent_d.cases) (auto simp: post_def bnd_def print_d_def split: prod.splits)

lemma post_bnd_if:
  assumes "b \<Longrightarrow> post Q (bnd m1 f) h" and "\<not> b \<Longrightarrow> post Q (bnd m2 f) h"
  shows "post Q (bnd (if b then m1 else m2) f) h"
  using assms by simp

lemma post_if:
  assumes "b \<Longrightarrow> post Q (bnd m1 f1) h" and "\<not> b \<Longrightarrow> post Q (bnd m2 f2) h"
  shows "post Q (if b then bnd m1 f1 else bnd m2 f2) h"
  using assms by simp

lemma post_bnd_unit:
  assumes "post Q (f x) h"
  shows "post Q (bnd (unit x) f) h"
  using assms by (auto simp: post_def bnd_def unit_def split: prod.splits)

lemma post_return_early:
  assumes "Q Ret []"
  shows "post Q return_early h"
  using assms by (simp add: post_def return_early_def)

lemmas post_rules = post_bnd_invoke post_bnd_invoke_on post_bnd_print_d post_bnd_if post_if
  post_bnd_unit post_return_early post_invoke_on

section \<open>The concrete sessions\<close>

lemma exec_demo: "exec scripted demo_replies = (Finished, demo_trace)"
  by code_simp

lemma exec_ui_down: "exec scripted ui_down_replies = (Finished, ui_down_trace)"
  by code_simp

lemma exec_load_fail: "exec scripted load_fail_replies = (Returned_early, load_fail_trace)"
  by code_simp

lemma exec_reload_fail:
  "exec scripted reload_fail_replies = (Raised AttributeError, reload_fail_trace)"
  by code_simp

section \<open>The integer shown by \<^verbatim>\<open>%d\<close>\<close>

lemma py_int_of_int: "py_int (rat_of_int n) = n"
  by (simp add: py_int_def)

lemma py_int_truncates:
  "\<bar>rat_of_int (py_int q)\<bar> \<le> \<bar>q\<bar> \<and> \<bar>q - rat_of_int (py_int q)\<bar> < 1"
proof (cases "0 \<le> q")
  case True
  then have a: "0 \<le> rat_of_int \<lfloor>q\<rfloor>" by simp
  have b: "rat_of_int \<lfloor>q\<rfloor> \<le> q" "q < rat_of_int \<lfloor>q\<rfloor> + 1" by linarith+
  from True have p: "py_int q = \<lfloor>q\<rfloor>" by (simp add: py_int_def)
  have "\<bar>rat_of_int \<lfloor>q\<rfloor>\<bar> \<le> \<bar>q\<bar>" using a b True by linarith
  moreover have "\<bar>q - rat_of_int \<lfloor>q\<rfloor>\<bar> < 1" using a b True by linarith
  ultimately show ?thesis unfolding p by blast
next
  case False
  then have a: "rat_of_int \<lceil>q\<rceil> \<le> 0" by (simp add: ceiling_le_zero)
  have b: "q \<le> rat_of_int \<lceil>q\<rceil>" "rat_of_int \<lceil>q\<rceil> < q + 1" by linarith+
  from False have p: "py_int q = \<lceil>q\<rceil>" by (simp add: py_int_def)
  have "\<bar>rat_of_int \<lceil>q\<rceil>\<bar> \<le> \<bar>q\<bar>" using a b False by linarith
  moreover have "\<bar>q - rat_of_int \<lceil>q\<rceil>\<bar> < 1" using a b False by linarith
  ultimately show ?thesis unfolding p by blast
qed

section \<open>The failure path of the first load\<close>

text \<open>
  Claim C1. If the first \<^verbatim>\<open>snt.demoTree()\<close> answers a falsy value (\<^verbatim>\<open>None\<close>), the script
  shows the error dialog exactly once and stops there: the dialog is the last event of
  the trace, only the calls of the UI guard and the load itself come before it, and no
  second load is attempted. The run ends with the \<^verbatim>\<open>return\<close> of line 45, or with the
  exception of the dialog call if the host throws in it.
\<close>

theorem demo_load_failure_shows_dialog_and_stops:
  assumes "exec host h = (out, tr)"
    and "replies_to (Call snt demoTree []) tr = Returns v # rs"
    and "\<not> truthy v"
  shows "rs = [] \<and> length (filter (calls_method showDialog) tr) = 1
     \<and> (\<forall>e\<in>set (butlast tr).
            calls_method getUI e \<or> calls_method initialize e \<or> calls_method demoTree e)
     \<and> (out = Returned_early \<and> (\<exists>x. last tr = Called (Call ui showDialog
              [AStr ''Somehow could not load bundled file.'', AStr ''Error'']) (Returns x))
        \<or> out = Raised HostException \<and> last tr = Called (Call ui showDialog
              [AStr ''Somehow could not load bundled file.'', AStr ''Error'']) Throws)"
proof -
  have "post (\<lambda>r es. \<forall>v rs. replies_to (Call snt demoTree []) es = Returns v # rs \<longrightarrow>
       \<not> truthy v \<longrightarrow>
       rs = [] \<and> length (filter (calls_method showDialog) es) = 1
       \<and> (\<forall>e\<in>set (butlast es).
              calls_method getUI e \<or> calls_method initialize e \<or> calls_method demoTree e)
       \<and> (outcome_of r = Returned_early \<and> (\<exists>x. last es = Called (Call ui showDialog
                [AStr ''Somehow could not load bundled file.'', AStr ''Error'']) (Returns x))
          \<or> outcome_of r = Raised HostException \<and> last es = Called (Call ui showDialog
                [AStr ''Somehow could not load bundled file.'', AStr ''Error'']) Throws))
     (run host) h" (is "post ?Q _ _")
    unfolding run_def Let_def by (intro post_rules) simp_all
  from post_exec[OF this assms(1)] obtain r :: "pyval res" where r: "out = outcome_of r"
    and "?Q r tr"
    by blast
  with assms(2,3) show ?thesis unfolding r by blast
qed

theorem demo_load_failure_shows_dialog_and_stops_witness:
  "exec scripted load_fail_replies = (Returned_early, load_fail_trace)
   \<and> replies_to (Call snt demoTree []) load_fail_trace = Returns PyNone # []
   \<and> \<not> truthy PyNone
   \<and> length (filter (calls_method showDialog) load_fail_trace) = 1
   \<and> meths (butlast load_fail_trace) = [getUI, demoTree]
   \<and> last load_fail_trace = Called (Call ui showDialog
          [AStr ''Somehow could not load bundled file.'', AStr ''Error'']) (Returns PyNone)"
proof -
  have r: "replies_to (Call snt demoTree []) load_fail_trace = Returns PyNone # []"
    by (simp add: load_fail_trace_def)
  have t: "\<not> truthy PyNone" by simp
  from demo_load_failure_shows_dialog_and_stops[OF exec_load_fail r t] exec_load_fail r
  show ?thesis by (simp add: load_fail_trace_def)
qed

section \<open>Order of the pause and the bulk load\<close>

text \<open>
  Claim C4. In every run that reaches the end of the script, the call
  \<^verbatim>\<open>changeState(SNTUI.TRACING_PAUSED)\<close>, made on the object that \<^verbatim>\<open>snt.getUI()\<close> returned,
  occurs strictly before the first \<^verbatim>\<open>snt.loadTree\<close> call, and that first load is the load
  of the demo tree returned by \<^verbatim>\<open>snt.demoTree()\<close>.
\<close>

theorem pause_precedes_bulk_load:
  assumes "exec host h = (Finished, tr)"
  shows "\<exists>u d x y. Called (Call snt demoTree []) (Returns d) \<in> set tr
       \<and> Called (Call snt getUI []) (Returns (PyObj u)) \<in> set tr
       \<and> Called (Call (Ref u) changeState [AStatic TRACING_PAUSED]) (Returns x)
            \<in> set (takeWhile (\<lambda>e. \<not> calls_method loadTree e) tr)
       \<and> hd (dropWhile (\<lambda>e. \<not> calls_method loadTree e) tr)
            = Called (Call snt loadTree [AVal d]) (Returns y)"
proof -
  have "post (\<lambda>r es. outcome_of r = Finished \<longrightarrow>
     (\<exists>u d x y. Called (Call snt demoTree []) (Returns d) \<in> set es
       \<and> Called (Call snt getUI []) (Returns (PyObj u)) \<in> set es
       \<and> Called (Call (Ref u) changeState [AStatic TRACING_PAUSED]) (Returns x)
            \<in> set (takeWhile (\<lambda>e. \<not> calls_method loadTree e) es)
       \<and> hd (dropWhile (\<lambda>e. \<not> calls_method loadTree e) es)
            = Called (Call snt loadTree [AVal d]) (Returns y)))
     (run host) h" (is "post ?Q _ _")
    unfolding run_def Let_def by (intro post_rules) simp_all
  from post_exec[OF this assms] obtain r :: "pyval res" where "Finished = outcome_of r"
    and "?Q r tr"
    by blast
  then show ?thesis by simp
qed

theorem pause_precedes_bulk_load_witness:
  "exec scripted demo_replies = (Finished, demo_trace)
   \<and> Called (Call (Ref 1) changeState [AStatic TRACING_PAUSED]) (Returns PyNone)
        \<in> set (takeWhile (\<lambda>e. \<not> calls_method loadTree e) demo_trace)
   \<and> hd (dropWhile (\<lambda>e. \<not> calls_method loadTree e) demo_trace)
        = Called (Call snt loadTree [AVal (PyObj 2)]) (Returns PyNone)"
  using pause_precedes_bulk_load[OF exec_demo] exec_demo
  by (simp add: demo_trace_def)

section \<open>The UI guard\<close>

text \<open>
  Claim C5. Let \<open>u\<close> be what the first \<^verbatim>\<open>snt.getUI()\<close> returned. If \<open>u\<close> is falsy
  (\<^verbatim>\<open>None\<close>), the next call is \<^verbatim>\<open>snt.initialize(True)\<close> and it is the only \<^verbatim>\<open>initialize\<close>
  call of the run; if \<open>u\<close> is truthy, the run contains no \<^verbatim>\<open>initialize\<close> call at all.
\<close>

theorem initialize_iff_ui_inactive:
  assumes "exec host h = (out, tr)"
    and "replies_to (Call snt getUI []) tr = Returns u # us"
  shows "if truthy u then \<forall>e\<in>set tr. \<not> calls_method initialize e
      else (\<exists>x. take 2 tr = [Called (Call snt getUI []) (Returns u),
                              Called (Call snt initialize [ABool True]) x])
        \<and> length (filter (calls_method initialize) tr) = 1"
proof -
  have "post (\<lambda>r es. \<forall>u us. replies_to (Call snt getUI []) es = Returns u # us \<longrightarrow>
     (if truthy u then \<forall>e\<in>set es. \<not> calls_method initialize e
      else (\<exists>x. take 2 es = [Called (Call snt getUI []) (Returns u),
                              Called (Call snt initialize [ABool True]) x])
        \<and> length (filter (calls_method initialize) es) = 1))
     (run host) h" (is "post ?Q _ _")
    unfolding run_def Let_def by (intro post_rules) simp_all
  from post_exec[OF this assms(1)] obtain r :: "pyval res" where "?Q r tr"
    by blast
  with assms(2) show ?thesis by blast
qed

theorem initialize_iff_ui_inactive_witness:
  "exec scripted ui_down_replies = (Finished, ui_down_trace)
   \<and> replies_to (Call snt getUI []) ui_down_trace = Returns PyNone # [Returns (PyObj 1)]
   \<and> \<not> truthy PyNone
   \<and> take 2 ui_down_trace = [Called (Call snt getUI []) (Returns PyNone),
                              Called (Call snt initialize [ABool True]) (Returns PyNone)]
   \<and> length (filter (calls_method initialize) ui_down_trace) = 1"
proof -
  have r: "replies_to (Call snt getUI []) ui_down_trace = Returns PyNone # [Returns (PyObj 1)]"
    by (simp add: ui_down_trace_def demo_trace_def)
  from initialize_iff_ui_inactive[OF exec_ui_down r] exec_ui_down r
  show ?thesis by (simp add: ui_down_trace_def)
qed

section \<open>What the two \<^verbatim>\<open>print\<close> statements show\<close>

text \<open>
  Claim C7, as worded, says that the printed value equals the computed minimum. It does
  not in the session \<open>demo_replies\<close>: the run finishes, \<^verbatim>\<open>getMin()\<close> returns 1/2 and then
  21/2, and the lines printed are \<^verbatim>\<open>Smallest inter-node distance: 0\<close> and
  \<^verbatim>\<open>After downsampling: 10\<close>.
\<close>

theorem printed_minimum_exact_counterexample:
  "fst (exec scripted demo_replies) = Finished
   \<and> reports (snd (exec scripted demo_replies)) =
       [Called (Call (Ref 5) getMin []) (Returns (PyFloat (Fin (1 / 2)))),
        Printed ''Smallest inter-node distance: 0'',
        Called (Call (Ref 9) getMin []) (Returns (PyFloat (Fin (21 / 2)))),
        Printed ''After downsampling: 10'']
   \<and> rat_of_int 0 \<noteq> 1 / 2 \<and> rat_of_int 10 \<noteq> 21 / 2"
  by (simp add: exec_demo demo_trace_def)

text \<open>
  Claim C7, amended. In every run that reaches the end of the script, the minimum of
  the inter-node distance is computed and printed once before \<^verbatim>\<open>downSample(10)\<close> and once
  after it; each \<^verbatim>\<open>getMin()\<close> is called on the object returned by
  \<^verbatim>\<open>getSummaryStats(INTER_NODE_DISTANCE)\<close> and returns a finite number \<open>q\<close>, and the line
  printed next shows \<open>py_int q\<close>, the value of \<open>q\<close> truncated toward zero to an integer.
\<close>

theorem printed_minimum_is_truncated:
  assumes "exec host h = (Finished, tr)"
  shows "\<exists>st1 st2 s1 s2 q1 q2 t x.
        filter (\<lambda>e. calls_method getSummaryStats e \<or> calls_method getMin e \<or> is_printed e
                     \<or> calls_method downSample e) tr =
        [Called (Call (Ref st1) getSummaryStats [AStatic INTER_NODE_DISTANCE]) (Returns (PyObj s1)),
         Called (Call (Ref s1) getMin []) (Returns (PyFloat (Fin q1))),
         Printed (''Smallest inter-node distance: '' @ str_of_int (py_int q1)),
         Called (Call (Ref t) downSample [AInt 10]) (Returns x),
         Called (Call (Ref st2) getSummaryStats [AStatic INTER_NODE_DISTANCE]) (Returns (PyObj s2)),
         Called (Call (Ref s2) getMin []) (Returns (PyFloat (Fin q2))),
         Printed (''After downsampling: '' @ str_of_int (py_int q2))]"
proof -
  have "post (\<lambda>r es. outcome_of r = Finished \<longrightarrow>
     (\<exists>st1 st2 s1 s2 q1 q2 t x.
        filter (\<lambda>e. calls_method getSummaryStats e \<or> calls_method getMin e \<or> is_printed e
                     \<or> calls_method downSample e) es =
        [Called (Call (Ref st1) getSummaryStats [AStatic INTER_NODE_DISTANCE]) (Returns (PyObj s1)),
         Called (Call (Ref s1) getMin []) (Returns (PyFloat (Fin q1))),
         Printed (''Smallest inter-node distance: '' @ str_of_int (py_int q1)),
         Called (Call (Ref t) downSample [AInt 10]) (Returns x),
         Called (Call (Ref st2) getSummaryStats [AStatic INTER_NODE_DISTANCE]) (Returns (PyObj s2)),
         Called (Call (Ref s2) getMin []) (Returns (PyFloat (Fin q2))),
         Printed (''After downsampling: '' @ str_of_int (py_int q2))]))
     (run host) h" (is "post ?Q _ _")
    unfolding run_def Let_def by (intro post_rules) simp_all
  from post_exec[OF this assms] obtain r :: "pyval res" where "Finished = outcome_of r"
    and "?Q r tr"
    by blast
  then show ?thesis by simp
qed

theorem printed_minimum_is_truncated_witness:
  "exec scripted demo_replies = (Finished, demo_trace)
   \<and> (\<exists>st1 st2 s1 s2 q1 q2 t x.
        filter (\<lambda>e. calls_method getSummaryStats e \<or> calls_method getMin e \<or> is_printed e
                     \<or> calls_method downSample e) demo_trace =
        [Called (Call (Ref st1) getSummaryStats [AStatic INTER_NODE_DISTANCE]) (Returns (PyObj s1)),
         Called (Call (Ref s1) getMin []) (Returns (PyFloat (Fin q1))),
         Printed (''Smallest inter-node distance: '' @ str_of_int (py_int q1)),
         Called (Call (Ref t) downSample [AInt 10]) (Returns x),
         Called (Call (Ref st2) getSummaryStats [AStatic INTER_NODE_DISTANCE]) (Returns (PyObj s2)),
         Called (Call (Ref s2) getMin []) (Returns (PyFloat (Fin q2))),
         Printed (''After downsampling: '' @ str_of_int (py_int q2))])"
  by (intro conjI exec_demo printed_minimum_is_truncated[OF exec_demo])

section \<open>The control flow of \<^verbatim>\<open>run()\<close>\<close>




section \<open>The unguarded second load\<close>

text \<open>
  Claim C9. The second \<^verbatim>\<open>snt.demoTree()\<close> (line 93) is not followed by a check: if it
  returns \<^verbatim>\<open>None\<close>, the run ends right after that call with an \<^verbatim>\<open>AttributeError\<close>, raised
  by the attribute lookup of \<^verbatim>\<open>tree.setColor\<close>; the host sees no \<^verbatim>\<open>setColor("yellow")\<close>
  call and no error dialog is shown anywhere in the run.
\<close>

theorem second_load_unguarded:
  assumes "exec host h = (out, tr)"
    and "replies_to (Call snt demoTree []) tr = [r1, Returns PyNone]"
  shows "out = Raised AttributeError
     \<and> last tr = Called (Call snt demoTree []) (Returns PyNone)
     \<and> (\<forall>e\<in>set tr. \<not> calls_method showDialog e)
     \<and> length (filter (calls_method setColor) tr) = 1"
proof -
  have "post (\<lambda>r es. \<forall>r1. replies_to (Call snt demoTree []) es = [r1, Returns PyNone] \<longrightarrow>
       outcome_of r = Raised AttributeError
       \<and> last es = Called (Call snt demoTree []) (Returns PyNone)
       \<and> (\<forall>e\<in>set es. \<not> calls_method showDialog e)
       \<and> length (filter (calls_method setColor) es) = 1)
     (run host) h" (is "post ?Q _ _")
    unfolding run_def Let_def by (intro post_rules) simp_all
  from post_exec[OF this assms(1)] obtain r :: "pyval res" where r: "out = outcome_of r"
    and "?Q r tr"
    by blast
  with assms(2) show ?thesis unfolding r by blast
qed

theorem second_load_unguarded_witness:
  "exec scripted reload_fail_replies = (Raised AttributeError, reload_fail_trace)
   \<and> replies_to (Call snt demoTree []) reload_fail_trace = [Returns (PyObj 2), Returns PyNone]
   \<and> last reload_fail_trace = Called (Call snt demoTree []) (Returns PyNone)
   \<and> filter (calls_method showDialog) reload_fail_trace = []
   \<and> length (filter (calls_method setColor) reload_fail_trace) = 1"
proof -
  have r: "replies_to (Call snt demoTree []) reload_fail_trace
      = [Returns (PyObj 2), Returns PyNone]"
    by (simp add: reload_fail_trace_def demo_trace_def)
  from second_load_unguarded[OF exec_reload_fail r] exec_reload_fail r
  show ?thesis by (simp add: filter_empty_conv)
qed

section \<open>Which objects are rebuilt after downsampling\<close>

text \<open>
  Claim C10. In every run that reaches the end of the script there is one
  \<^verbatim>\<open>snt.getAnalyzer(False)\<close> call, made before \<^verbatim>\<open>downSample(10)\<close>; both \<^verbatim>\<open>summarize\<close> calls and
  both \<^verbatim>\<open>updateAndDisplayTable\<close> calls, before and after the downsampling, are made on the
  object \<open>a\<close> it returned. Only the statistics object is rebuilt: the second
  \<^verbatim>\<open>getSummaryStats\<close> is called on the object \<open>s\<close> returned by \<^verbatim>\<open>TreeStatistics(tree)\<close>, built
  from the downsampled tree \<open>t\<close>, while the analyzer is handed nothing new.
\<close>

theorem analyzer_reused_statistics_rebuilt:
  assumes "exec host h = (Finished, tr)"
  shows "\<exists>a s0 t s x1 x2 x3 x4 x5 x6 x7.
        filter (\<lambda>e. calls_method getAnalyzer e \<or> calls_method getStatistics e
                     \<or> calls_method summarize e \<or> calls_method updateAndDisplayTable e
                     \<or> calls_method getSummaryStats e \<or> calls_method downSample e
                     \<or> calls_method new e) tr =
        [Called (Call snt getAnalyzer [ABool False]) (Returns (PyObj a)),
         Called (Call snt getStatistics [ABool False]) (Returns (PyObj s0)),
         Called (Call (Ref a) summarize [AStr ''TreeV Demo'', ABool True]) (Returns x1),
         Called (Call (Ref a) updateAndDisplayTable []) (Returns x2),
         Called (Call (Ref s0) getSummaryStats [AStatic INTER_NODE_DISTANCE]) (Returns x3),
         Called (Call (Ref t) downSample [AInt 10]) (Returns x4),
         Called (Call TreeStatistics new [AVal (PyObj t)]) (Returns (PyObj s)),
         Called (Call (Ref s) getSummaryStats [AStatic INTER_NODE_DISTANCE]) (Returns x5),
         Called (Call (Ref a) summarize [AStr ''TreeV Demo (Downsampled)'', ABool True])
           (Returns x6),
         Called (Call (Ref a) updateAndDisplayTable []) (Returns x7)]"
proof -
  have "post (\<lambda>r es. outcome_of r = Finished \<longrightarrow>
     (\<exists>a s0 t s x1 x2 x3 x4 x5 x6 x7.
        filter (\<lambda>e. calls_method getAnalyzer e \<or> calls_method getStatistics e
                     \<or> calls_method summarize e \<or> calls_method updateAndDisplayTable e
                     \<or> calls_method getSummaryStats e \<or> calls_method downSample e
                     \<or> calls_method new e) es =
        [Called (Call snt getAnalyzer [ABool False]) (Returns (PyObj a)),
         Called (Call snt getStatistics [ABool False]) (Returns (PyObj s0)),
         Called (Call (Ref a) summarize [AStr ''TreeV Demo'', ABool True]) (Returns x1),
         Called (Call (Ref a) updateAndDisplayTable []) (Returns x2),
         Called (Call (Ref s0) getSummaryStats [AStatic INTER_NODE_DISTANCE]) (Returns x3),
         Called (Call (Ref t) downSample [AInt 10]) (Returns x4),
         Called (Call TreeStatistics new [AVal (PyObj t)]) (Returns (PyObj s)),
         Called (Call (Ref s) getSummaryStats [AStatic INTER_NODE_DISTANCE]) (Returns x5),
         Called (Call (Ref a) summarize [AStr ''TreeV Demo (Downsampled)'', ABool True])
           (Returns x6),
         Called (Call (Ref a) updateAndDisplayTable []) (Returns x7)]))
     (run host) h" (is "post ?Q _ _")
    unfolding run_def Let_def by (intro post_rules) simp_all
  from post_exec[OF this assms] obtain r :: "pyval res" where "Finished = outcome_of r"
    and "?Q r tr"
    by blast
  then show ?thesis by simp
qed

theorem analyzer_reused_statistics_rebuilt_witness:
  "exec scripted demo_replies = (Finished, demo_trace)
   \<and> filter (\<lambda>e. calls_method getAnalyzer e \<or> calls_method getStatistics e
                     \<or> calls_method summarize e \<or> calls_method updateAndDisplayTable e
                     \<or> calls_method getSummaryStats e \<or> calls_method downSample e
                     \<or> calls_method new e) demo_trace =
        [Called (Call snt getAnalyzer [ABool False]) (Returns (PyObj 3)),
         Called (Call snt getStatistics [ABool False]) (Returns (PyObj 4)),
         Called (Call (Ref 3) summarize [AStr ''TreeV Demo'', ABool True]) (Returns PyNone),
         Called (Call (Ref 3) updateAndDisplayTable []) (Returns PyNone),
         Called (Call (Ref 4) getSummaryStats [AStatic INTER_NODE_DISTANCE]) (Returns (PyObj 5)),
         Called (Call (Ref 7) downSample [AInt 10]) (Returns PyNone),
         Called (Call TreeStatistics new [AVal (PyObj 7)]) (Returns (PyObj 8)),
         Called (Call (Ref 8) getSummaryStats [AStatic INTER_NODE_DISTANCE]) (Returns (PyObj 9)),
         Called (Call (Ref 3) summarize [AStr ''TreeV Demo (Downsampled)'', ABool True])
           (Returns PyNone),
         Called (Call (Ref 3) updateAndDisplayTable []) (Returns PyNone)]"
  using analyzer_reused_statistics_rebuilt[OF exec_demo] exec_demo
  by (simp add: demo_trace_def)

end
